theory Spec2Isabelle
  imports Complex_Main
begin

section \<open>Python primitives the generator relies on\<close>

text \<open>
  The script \<^verbatim>\<open>generate_training_data.py\<close> computes with Python floats, Python
  integers, the \<^verbatim>\<open>random\<close> module and \<^verbatim>\<open>datetime\<close>. Floats are modelled by
  exact reals (no rounding error of the binary representation); integers by \<open>int\<close>;
  a date by its proleptic Gregorian ordinal (\<^verbatim>\<open>date.toordinal()\<close>, 1 = 0001-01-01).
  The errors the script can raise are values of \<open>py_error\<close>.
\<close>

datatype py_error = OverflowError | ZeroDivisionError | OSError

definition py_round :: "real \<Rightarrow> int" where
  \<comment> \<open>\<^verbatim>\<open>round(x)\<close>: the nearest integer, a tie going to the even neighbour.\<close>
  "py_round x =
     (let f = \<lfloor>x\<rfloor>; d = x - of_int f
      in if d < 1 / 2 then f
         else if 1 / 2 < d then f + 1
         else if even f then f else f + 1)"

definition py_round1 :: "real \<Rightarrow> real" where
  \<comment> \<open>\<^verbatim>\<open>round(x, 1)\<close>: the nearest multiple of one tenth.\<close>
  "py_round1 x = of_int (py_round (x * 10)) / 10"

definition py_int :: "real \<Rightarrow> int" where
  \<comment> \<open>\<^verbatim>\<open>int(x)\<close> of a float: truncation toward zero.\<close>
  "py_int x = (if 0 \<le> x then \<lfloor>x\<rfloor> else \<lceil>x\<rceil>)"

definition random_uniform :: "real \<Rightarrow> real \<Rightarrow> real \<Rightarrow> real" where
  \<comment> \<open>\<^verbatim>\<open>random.uniform(a, b)\<close> is \<^verbatim>\<open>a + (b - a) * self.random()\<close>; \<open>u\<close> is the draw.\<close>
  "random_uniform a b u = a + (b - a) * u"

definition MAXORDINAL :: int where
  "MAXORDINAL = 3652059"

definition weekday :: "int \<Rightarrow> int" where
  \<comment> \<open>\<^verbatim>\<open>date.weekday()\<close>: Monday is 0 and Sunday is 6.\<close>
  "weekday ordinal = (ordinal + 6) mod 7"

definition days_before_month :: "int \<Rightarrow> int" where
  "days_before_month m =
     [- 1, 0, 31, 59, 90, 120, 151, 181, 212, 243, 273, 304, 334] ! nat m"

definition month_of_ordinal :: "int \<Rightarrow> int" where
  \<comment> \<open>The month component of \<^verbatim>\<open>_ord2ymd\<close> in \<^verbatim>\<open>datetime.py\<close>.\<close>
  "month_of_ordinal ordinal =
     (let n0 = (ordinal - 1) mod 146097;
          n100 = n0 div 36524;
          r100 = n0 mod 36524;
          n4 = r100 div 1461;
          r4 = r100 mod 1461;
          n1 = r4 div 365;
          n = r4 mod 365
      in if n1 = 4 \<or> n100 = 4 then 12
         else
           (let leapyear = (n1 = 3 \<and> (if n4 = 24 then n100 = 3 else True));
                month = (n + 50) div 32;
                preceding = days_before_month month + (if 2 < month \<and> leapyear then 1 else 0)
            in if n < preceding then month - 1 else month))"

section \<open>The daily record\<close>

record daily_record =
  moodLevel :: int
  anxietyLevel :: int
  anhedoniaLevel :: int
  sleepHours :: real
  sleepQuality :: int
  daylightMinutes :: real
  exerciseMinutes :: real
  medicationTaken :: int
  substanceAmount :: real
  dayOfWeek :: int
  previousDaySleep :: real
  previousDayMood :: int

section \<open>One iteration of the generator's loop\<close>

text \<open>
  The pseudo-random generator is seeded once, at import. Its stream is the function
  \<open>rng\<close>: \<open>rng k\<close> is what the \<open>k\<close>-th call of \<^verbatim>\<open>random.random()\<close> after seeding
  returns. The loop state holds the number of draws made so far (\<open>pos\<close>), the two
  carried variables and the list built so far.
\<close>

type_synonym rng = "nat \<Rightarrow> real"

record loop_state =
  pos :: nat
  previous_sleep :: real
  previous_mood :: int
  data :: "daily_record list"

definition medication_start_day :: int where
  "medication_start_day = 60"

definition baseline_mood :: real where
  "baseline_mood = 2.0"

definition baseline_anxiety :: real where
  "baseline_anxiety = 3.0"

text \<open>
  Each local variable of the loop body is a function of the stream, the start date, the
  loop state \<open>s\<close> the iteration is entered with, and the day index. The definitions
  follow the body line by line; \<open>pos_sleep\<close>, \<open>pos_daylight\<close>, \<open>pos_alcohol\<close>,
  \<open>pos_mood\<close> and \<open>pos_next\<close> count the draws made before the line they are named after,
  and \<open>exercises\<close>, \<open>caffeine\<close>, \<open>alcohol\<close> are the three conditions that guard a draw.
\<close>

definition current_date :: "int \<Rightarrow> nat \<Rightarrow> int" where
  "current_date start_date day = start_date + int day"

definition day_of_week :: "int \<Rightarrow> nat \<Rightarrow> int" where
  "day_of_week start_date day = weekday (current_date start_date day) + 1"

definition on_medication :: "nat \<Rightarrow> bool" where
  "on_medication day = (medication_start_day \<le> int day)"

definition medication_taken :: "rng \<Rightarrow> loop_state \<Rightarrow> nat \<Rightarrow> int" where
  \<comment> \<open>\<^verbatim>\<open>and\<close> evaluates \<^verbatim>\<open>random.random()\<close> only when \<^verbatim>\<open>on_medication\<close> holds.\<close>
  "medication_taken rng s day = (if on_medication day \<and> rng (pos s) < 0.85 then 1 else 0)"

definition pos_sleep :: "loop_state \<Rightarrow> nat \<Rightarrow> nat" where
  "pos_sleep s day = (if on_medication day then pos s + 1 else pos s)"

definition days_on_meds :: "rng \<Rightarrow> loop_state \<Rightarrow> nat \<Rightarrow> int" where
  "days_on_meds rng s day =
     (if medication_taken rng s day \<noteq> 0 then max 0 (int day - medication_start_day) else 0)"

definition med_effect :: "rng \<Rightarrow> loop_state \<Rightarrow> nat \<Rightarrow> real" where
  "med_effect rng s day =
     (if on_medication day
      then (let effect = min 1.5 (of_int (days_on_meds rng s day) / 30 * 1.5)
            in if medication_taken rng s day = 0 then effect * 0.3 else effect)
      else 0)"

definition is_weekend :: "int \<Rightarrow> nat \<Rightarrow> bool" where
  "is_weekend start_date day = (day_of_week start_date day = 1 \<or> day_of_week start_date day = 7)"

definition base_sleep :: "rng \<Rightarrow> int \<Rightarrow> loop_state \<Rightarrow> nat \<Rightarrow> real" where
  "base_sleep rng start_date s day =
     (if is_weekend start_date day then random_uniform 7.5 9.0 (rng (pos_sleep s day))
      else random_uniform 6.0 8.0 (rng (pos_sleep s day)))"

definition sleep_hours :: "rng \<Rightarrow> int \<Rightarrow> loop_state \<Rightarrow> nat \<Rightarrow> real" where
  "sleep_hours rng start_date s day =
     max 4.0 (min 10.0
       (base_sleep rng start_date s day + med_effect rng s day * 0.5
          + random_uniform (- 0.5) 0.5 (rng (pos_sleep s day + 1))))"

definition quality_noise :: "rng \<Rightarrow> loop_state \<Rightarrow> nat \<Rightarrow> real" where
  "quality_noise rng s day = random_uniform (- 1) 1 (rng (pos_sleep s day + 2))"

definition sleep_quality :: "rng \<Rightarrow> int \<Rightarrow> loop_state \<Rightarrow> nat \<Rightarrow> int" where
  "sleep_quality rng start_date s day =
     py_int (min 5 (max 1 (sleep_hours rng start_date s day / 8.0 * 5 + quality_noise rng s day)))"

definition exercise_probability :: "int \<Rightarrow> loop_state \<Rightarrow> nat \<Rightarrow> real" where
  "exercise_probability start_date s day =
     (let probability = (if is_weekend start_date day then 0.3 else 0.15)
      in if 0 < day \<and> 3 \<le> previous_mood s then probability + 0.2 else probability)"

definition exercises :: "rng \<Rightarrow> int \<Rightarrow> loop_state \<Rightarrow> nat \<Rightarrow> bool" where
  "exercises rng start_date s day =
     (rng (pos_sleep s day + 3) < exercise_probability start_date s day)"

definition exercise_minutes :: "rng \<Rightarrow> int \<Rightarrow> loop_state \<Rightarrow> nat \<Rightarrow> real" where
  "exercise_minutes rng start_date s day =
     (if exercises rng start_date s day then random_uniform 20 60 (rng (pos_sleep s day + 4))
      else 0)"

definition pos_daylight :: "rng \<Rightarrow> int \<Rightarrow> loop_state \<Rightarrow> nat \<Rightarrow> nat" where
  "pos_daylight rng start_date s day =
     (if exercises rng start_date s day then pos_sleep s day + 5 else pos_sleep s day + 4)"

definition month :: "int \<Rightarrow> nat \<Rightarrow> int" where
  "month start_date day = month_of_ordinal (current_date start_date day)"

definition seasonal_factor :: "int \<Rightarrow> nat \<Rightarrow> real" where
  "seasonal_factor start_date day =
     (if 5 \<le> month start_date day \<and> month start_date day \<le> 8 then 1.5 else 0.7)"

definition base_daylight :: "rng \<Rightarrow> int \<Rightarrow> loop_state \<Rightarrow> nat \<Rightarrow> real" where
  "base_daylight rng start_date s day =
     random_uniform 60 180 (rng (pos_daylight rng start_date s day)) * seasonal_factor start_date day"

definition daylight_minutes :: "rng \<Rightarrow> int \<Rightarrow> loop_state \<Rightarrow> nat \<Rightarrow> real" where
  "daylight_minutes rng start_date s day =
     max 15 (min 300
       (if is_weekend start_date day then base_daylight rng start_date s day
        else base_daylight rng start_date s day * 0.6))"

definition caffeine :: "rng \<Rightarrow> int \<Rightarrow> loop_state \<Rightarrow> nat \<Rightarrow> bool" where
  "caffeine rng start_date s day = (rng (pos_daylight rng start_date s day + 1) < 0.7)"

definition pos_alcohol :: "rng \<Rightarrow> int \<Rightarrow> loop_state \<Rightarrow> nat \<Rightarrow> nat" where
  "pos_alcohol rng start_date s day =
     (if caffeine rng start_date s day then pos_daylight rng start_date s day + 3
      else pos_daylight rng start_date s day + 2)"

definition alcohol :: "rng \<Rightarrow> int \<Rightarrow> loop_state \<Rightarrow> nat \<Rightarrow> bool" where
  \<comment> \<open>The draw is made only on a weekend.\<close>
  "alcohol rng start_date s day =
     (is_weekend start_date day \<and> rng (pos_alcohol rng start_date s day) < 0.4)"

definition substance_amount :: "rng \<Rightarrow> int \<Rightarrow> loop_state \<Rightarrow> nat \<Rightarrow> real" where
  "substance_amount rng start_date s day =
     (let amount = (if caffeine rng start_date s day
                    then 0 + random_uniform 100 400 (rng (pos_daylight rng start_date s day + 2))
                    else 0)
      in if alcohol rng start_date s day
         then amount + random_uniform 200 600 (rng (pos_alcohol rng start_date s day + 1))
         else amount)"

definition pos_mood :: "rng \<Rightarrow> int \<Rightarrow> loop_state \<Rightarrow> nat \<Rightarrow> nat" where
  "pos_mood rng start_date s day =
     (if is_weekend start_date day
      then (if alcohol rng start_date s day then pos_alcohol rng start_date s day + 2
            else pos_alcohol rng start_date s day + 1)
      else pos_alcohol rng start_date s day)"

definition mood_noise :: "rng \<Rightarrow> int \<Rightarrow> loop_state \<Rightarrow> nat \<Rightarrow> real" where
  "mood_noise rng start_date s day =
     random_uniform (- 0.3) 0.3 (rng (pos_mood rng start_date s day))"

definition mood :: "rng \<Rightarrow> int \<Rightarrow> loop_state \<Rightarrow> nat \<Rightarrow> real" where
  "mood rng start_date s day =
     (let mood_base = baseline_mood;
          sleep_effect = (previous_sleep s - 6.0) * 0.5;
          exercise_effect =
            (if 0 < exercise_minutes rng start_date s day
             then exercise_minutes rng start_date s day / 60.0 * 0.8 else 0);
          daylight_effect = daylight_minutes rng start_date s day / 120.0 * 0.4;
          substance_effect = - (substance_amount rng start_date s day / 500.0) * 0.3;
          weekday_effect = (if day_of_week start_date day = 2 then - 0.3 else 0);
          mood_momentum = (of_int (previous_mood s) - 3) * 0.2
      in mood_base + med_effect rng s day + sleep_effect + exercise_effect + daylight_effect
           + substance_effect + weekday_effect + mood_momentum
           + mood_noise rng start_date s day)"

definition mood_level :: "rng \<Rightarrow> int \<Rightarrow> loop_state \<Rightarrow> nat \<Rightarrow> int" where
  "mood_level rng start_date s day = max 1 (min 5 (py_round (mood rng start_date s day)))"

definition anxiety :: "rng \<Rightarrow> int \<Rightarrow> loop_state \<Rightarrow> nat \<Rightarrow> real" where
  "anxiety rng start_date s day =
     (let anxiety_base = baseline_anxiety;
          anxiety_med_effect = - med_effect rng s day * 0.8;
          anxiety_sleep_effect = (7.0 - sleep_hours rng start_date s day) * 0.3;
          anxiety_exercise_effect = - (exercise_minutes rng start_date s day / 60.0) * 0.5;
          anxiety_substance_effect = substance_amount rng start_date s day / 500.0 * 0.5
      in anxiety_base + anxiety_med_effect + anxiety_sleep_effect + anxiety_exercise_effect
           + anxiety_substance_effect
           + random_uniform (- 0.4) 0.4 (rng (pos_mood rng start_date s day + 1)))"

definition anxiety_level :: "rng \<Rightarrow> int \<Rightarrow> loop_state \<Rightarrow> nat \<Rightarrow> int" where
  "anxiety_level rng start_date s day = max 0 (min 4 (py_round (anxiety rng start_date s day)))"

definition anhedonia :: "rng \<Rightarrow> int \<Rightarrow> loop_state \<Rightarrow> nat \<Rightarrow> real" where
  "anhedonia rng start_date s day =
     (let anhedonia_base = 2.5;
          anhedonia_med_effect = - med_effect rng s day * 0.7;
          anhedonia_exercise_effect = - (exercise_minutes rng start_date s day / 60.0) * 0.4;
          anhedonia_sleep_effect = (7.0 - sleep_hours rng start_date s day) * 0.2
      in anhedonia_base + anhedonia_med_effect + anhedonia_exercise_effect
           + anhedonia_sleep_effect
           + random_uniform (- 0.3) 0.3 (rng (pos_mood rng start_date s day + 2)))"

definition anhedonia_level :: "rng \<Rightarrow> int \<Rightarrow> loop_state \<Rightarrow> nat \<Rightarrow> int" where
  "anhedonia_level rng start_date s day =
     max 0 (min 4 (py_round (anhedonia rng start_date s day)))"

definition pos_next :: "rng \<Rightarrow> int \<Rightarrow> loop_state \<Rightarrow> nat \<Rightarrow> nat" where
  "pos_next rng start_date s day = pos_mood rng start_date s day + 3"

section \<open>The loop and \<^verbatim>\<open>generate_realistic_data\<close>\<close>

definition initial_state :: loop_state where
  "initial_state = \<lparr> pos = 0, previous_sleep = 6.5, previous_mood = 2, data = [] \<rparr>"

definition make_row :: "rng \<Rightarrow> int \<Rightarrow> loop_state \<Rightarrow> nat \<Rightarrow> real \<Rightarrow> int \<Rightarrow> daily_record" where
  \<comment> \<open>The dictionary of lines 167-180. \<open>s\<close> is the state the iteration was entered with;
      \<open>prev_sleep\<close> and \<open>prev_mood\<close> are the values \<^verbatim>\<open>previous_sleep\<close> and
      \<^verbatim>\<open>previous_mood\<close> hold when the dictionary is built.\<close>
  "make_row rng start_date s day prev_sleep prev_mood =
     \<lparr> moodLevel = mood_level rng start_date s day,
       anxietyLevel = anxiety_level rng start_date s day,
       anhedoniaLevel = anhedonia_level rng start_date s day,
       sleepHours = py_round1 (sleep_hours rng start_date s day),
       sleepQuality = sleep_quality rng start_date s day,
       daylightMinutes = py_round1 (daylight_minutes rng start_date s day),
       exerciseMinutes = py_round1 (exercise_minutes rng start_date s day),
       medicationTaken = medication_taken rng s day,
       substanceAmount = py_round1 (substance_amount rng start_date s day),
       dayOfWeek = day_of_week start_date day,
       previousDaySleep = (if 0 < day then py_round1 prev_sleep else 0),
       previousDayMood = (if 0 < day then prev_mood else 0) \<rparr>"

definition loop_body :: "rng \<Rightarrow> int \<Rightarrow> loop_state \<Rightarrow> nat \<Rightarrow> loop_state" where
  \<comment> \<open>The carried variables are overwritten (lines 163-164) before the dictionary is
      built, so the dictionary reads the new values.\<close>
  "loop_body rng start_date s day =
     (let s1 = s \<lparr> pos := pos_next rng start_date s day,
                   previous_sleep := sleep_hours rng start_date s day,
                   previous_mood := mood_level rng start_date s day \<rparr>
      in s1 \<lparr> data :=
                data s1 @ [make_row rng start_date s day (previous_sleep s1) (previous_mood s1)] \<rparr>)"

definition run_loop :: "rng \<Rightarrow> int \<Rightarrow> nat \<Rightarrow> loop_state" where
  \<comment> \<open>The loop state after the iterations \<open>day = 0, ..., n - 1\<close>, which is the state
      iteration \<open>n\<close> is entered with.\<close>
  "run_loop rng start_date n = foldl (loop_body rng start_date) initial_state [0..<n]"

definition generate_realistic_data :: "rng \<Rightarrow> int \<Rightarrow> int \<Rightarrow> py_error + daily_record list" where
  \<comment> \<open>\<open>today\<close> is the ordinal of \<^verbatim>\<open>datetime.now()\<close>. Subtracting the timedelta raises
      OverflowError when the start date leaves the range of \<^verbatim>\<open>datetime\<close>; every later
      date lies between the start date and today.\<close>
  "generate_realistic_data rng today num_days =
     (let start_date = today - num_days
      in if start_date < 1 \<or> MAXORDINAL < start_date then Inl OverflowError
         else Inr (data (run_loop rng start_date (nat num_days))))"

section \<open>\<^verbatim>\<open>save_to_csv\<close> and the script's entry point\<close>

text \<open>
  The file system is the writer's environment. \<open>Healthy\<close> accepts every write;
  \<open>Open_fails\<close> raises OSError at \<^verbatim>\<open>open\<close>; \<open>Fails_after k\<close> accepts \<open>k\<close> lines and raises
  OSError at the next one. A line of the file is the header or one record; a line of the
  console carries the numbers the format string prints.
\<close>

datatype disk = Healthy | Open_fails | Fails_after nat

datatype csv_line = Header "string list" | Row daily_record

datatype console_line =
    Banner
  | Separator
  | Generated nat
  | Saved_to string
  | Statistics_header
  | Days_on_medication nat
  | Avg_mood_before real
  | Avg_mood_after real
  | Mood_improvement real
  | Closing

record save_result =
  written :: "csv_line list option"
  console :: "console_line list"
  raised :: "py_error option"

definition fieldnames :: "string list" where
  "fieldnames =
     [''moodLevel'', ''anxietyLevel'', ''anhedoniaLevel'', ''sleepHours'', ''sleepQuality'',
      ''daylightMinutes'', ''exerciseMinutes'', ''medicationTaken'', ''substanceAmount'',
      ''dayOfWeek'', ''previousDaySleep'', ''previousDayMood'']"

definition csv_lines :: "daily_record list \<Rightarrow> csv_line list" where
  \<comment> \<open>\<^verbatim>\<open>writeheader()\<close> followed by \<^verbatim>\<open>writerows(data)\<close>.\<close>
  "csv_lines rows = Header fieldnames # map Row rows"

definition write_file :: "disk \<Rightarrow> csv_line list \<Rightarrow> csv_line list option \<times> bool" where
  \<comment> \<open>The \<^verbatim>\<open>with open(...)\<close> block: what the file holds afterwards (\<open>None\<close>: never opened),
      and whether the block ended without an exception.\<close>
  "write_file d ls =
     (case d of
        Healthy \<Rightarrow> (Some ls, True)
      | Open_fails \<Rightarrow> (None, False)
      | Fails_after k \<Rightarrow> if k < length ls then (Some (take k ls), False) else (Some ls, True))"

definition avg_mood_before_of :: "daily_record list \<Rightarrow> real" where
  \<comment> \<open>Line 201.\<close>
  "avg_mood_before_of rows = of_int (sum_list (map moodLevel (take 60 rows))) / 60"

definition avg_mood_after_of :: "daily_record list \<Rightarrow> py_error + real" where
  \<comment> \<open>Line 202: true division of two integers raises ZeroDivisionError on a zero divisor.\<close>
  "avg_mood_after_of rows =
     (if int (length rows) - 90 = 0 then Inl ZeroDivisionError
      else Inr (of_int (sum_list (map moodLevel (drop 90 rows))) / of_int (int (length rows) - 90)))"

definition save_to_csv :: "disk \<Rightarrow> daily_record list \<Rightarrow> string \<Rightarrow> save_result" where
  "save_to_csv d rows filename =
     (case write_file d (csv_lines rows) of
        (content, False) \<Rightarrow> \<lparr> written = content, console = [], raised = Some OSError \<rparr>
      | (content, True) \<Rightarrow>
          (let out = [Generated (length rows), Saved_to filename];
               med_days = length (filter (\<lambda>r. medicationTaken r = 1) rows);
               avg_mood_before = avg_mood_before_of rows
           in case avg_mood_after_of rows of
                Inl e \<Rightarrow> \<lparr> written = content, console = out, raised = Some e \<rparr>
              | Inr avg_mood_after \<Rightarrow>
                  \<lparr> written = content,
                    console = out @ [Statistics_header, Days_on_medication med_days,
                      Avg_mood_before avg_mood_before, Avg_mood_after avg_mood_after,
                      Mood_improvement (avg_mood_after - avg_mood_before)],
                    raised = None \<rparr>))"

definition main :: "rng \<Rightarrow> int \<Rightarrow> disk \<Rightarrow> save_result" where
  \<comment> \<open>The \<^verbatim>\<open>__main__\<close> block: two lines, the generator for 180 days, the writer, the closing
      lines. An exception ends the run where it is raised.\<close>
  "main rng today d =
     (case generate_realistic_data rng today 180 of
        Inl e \<Rightarrow> \<lparr> written = None, console = [Banner, Separator], raised = Some e \<rparr>
      | Inr rows \<Rightarrow>
          (let r = save_to_csv d rows ''neuralpath_ml_training.csv''
           in case raised r of
                Some e \<Rightarrow> r \<lparr> console := [Banner, Separator] @ console r \<rparr>
              | None \<Rightarrow> r \<lparr> console := [Banner, Separator] @ console r @ [Closing] \<rparr>))"

definition is_summary :: "console_line \<Rightarrow> bool" where
  \<comment> \<open>The lines \<^verbatim>\<open>save_to_csv\<close> prints.\<close>
  "is_summary c =
     (case c of Banner \<Rightarrow> False | Separator \<Rightarrow> False | Closing \<Rightarrow> False | _ \<Rightarrow> True)"

section \<open>The specification's formulas\<close>

text \<open>
  The definitions of this section follow the words of the specification, not the source;
  the theorems below compare them with what the loop computes.
\<close>

definition spec_days_on_meds :: "int \<Rightarrow> bool \<Rightarrow> int" where
  "spec_days_on_meds day taken = (if taken then max 0 (day - medication_start_day) else 0)"

definition spec_med_effect :: "int \<Rightarrow> bool \<Rightarrow> real" where
  "spec_med_effect day taken =
     (let computed =
            (if medication_start_day \<le> day
             then min 1.5 (of_int (spec_days_on_meds day taken) / 30 * 1.5) else 0)
      in if medication_start_day \<le> day \<and> \<not> taken then 0.3 * computed else computed)"


definition clip_real :: "real \<Rightarrow> real \<Rightarrow> real \<Rightarrow> real" where
  "clip_real lo hi x = (if x < lo then lo else if hi < x then hi else x)"


definition truncate_toward_zero :: "real \<Rightarrow> int" where
  \<comment> \<open>The integer part: the fractional digits are dropped, whatever the sign.\<close>
  "truncate_toward_zero x = (if x < 0 then - \<lfloor>- x\<rfloor> else \<lfloor>x\<rfloor>)"

definition spec_sleep_quality :: "real \<Rightarrow> real \<Rightarrow> int" where
  "spec_sleep_quality hours noise =
     truncate_toward_zero (clip_real 1 5 (hours / 8.0 * 5 + noise))"

section \<open>Concrete inputs\<close>

definition rng_a :: rng where
  \<comment> \<open>A stream of draws alternating between 1/4 and 3/4.\<close>
  "rng_a k = (if even k then 1 / 4 else 3 / 4)"

definition rng_b :: rng where
  \<comment> \<open>A stream of draws that runs through 0, 1/7, ..., 6/7.\<close>
  "rng_b k = real (k mod 7) / 7"

definition sample_row :: daily_record where
  \<comment> \<open>The record of the one-day run on 2024-01-02 with the stream \<open>rng_a\<close>.\<close>
  "sample_row =
     \<lparr> moodLevel = 2, anxietyLevel = 3, anhedoniaLevel = 2, sleepHours = 81 / 10,
       sleepQuality = 4, daylightMinutes = 63, exerciseMinutes = 0, medicationTaken = 0,
       substanceAmount = 500, dayOfWeek = 1, previousDaySleep = 0, previousDayMood = 0 \<rparr>"

section \<open>The loop, one iteration at a time\<close>

lemma run_loop_Suc: "run_loop rng sd (Suc n) = loop_body rng sd (run_loop rng sd n) n"
  by (simp add: run_loop_def)

lemma run_loop_0: "run_loop rng sd 0 = initial_state"
  by (simp add: run_loop_def)

lemma data_loop_body:
  "data (loop_body rng sd s day) =
     data s @ [make_row rng sd s day (sleep_hours rng sd s day) (mood_level rng sd s day)]"
  by (simp add: loop_body_def Let_def)

lemma previous_sleep_loop_body:
  "previous_sleep (loop_body rng sd s day) = sleep_hours rng sd s day"
  by (simp add: loop_body_def Let_def)

lemma previous_mood_loop_body:
  "previous_mood (loop_body rng sd s day) = mood_level rng sd s day"
  by (simp add: loop_body_def Let_def)

lemma pos_loop_body: "pos (loop_body rng sd s day) = pos_next rng sd s day"
  by (simp add: loop_body_def Let_def)

lemma length_data_run_loop: "length (data (run_loop rng sd n)) = n"
  by (induction n) (simp_all add: run_loop_0 initial_state_def run_loop_Suc data_loop_body)

lemma data_run_loop_nth:
  "i < n \<Longrightarrow>
   data (run_loop rng sd n) ! i =
     make_row rng sd (run_loop rng sd i) i
       (sleep_hours rng sd (run_loop rng sd i) i) (mood_level rng sd (run_loop rng sd i) i)"
proof (induction n)
  case 0
  then show ?case by simp
next
  case (Suc n)
  show ?case
  proof (cases "i < n")
    case True
    then show ?thesis
      using Suc.IH by (simp add: run_loop_Suc data_loop_body nth_append length_data_run_loop)
  next
    case False
    with Suc.prems have "i = n" by simp
    then show ?thesis
      by (simp add: run_loop_Suc data_loop_body nth_append length_data_run_loop)
  qed
qed

lemma generate_Inr:
  "generate_realistic_data rng today n = Inr recs \<Longrightarrow>
   recs = data (run_loop rng (today - n) (nat n))"
  by (simp add: generate_realistic_data_def Let_def split: if_splits)

lemma generate_nth:
  assumes "generate_realistic_data rng today n = Inr recs" and "i < length recs"
  shows "recs ! i =
     make_row rng (today - n) (run_loop rng (today - n) i) i
       (sleep_hours rng (today - n) (run_loop rng (today - n) i) i)
       (mood_level rng (today - n) (run_loop rng (today - n) i) i)"
  using assms generate_Inr [OF assms(1)] by (simp add: length_data_run_loop data_run_loop_nth)

lemma generate_returns:
  assumes "1 \<le> today - n" and "today - n \<le> MAXORDINAL"
  shows "\<exists>recs. generate_realistic_data rng today n = Inr recs \<and> length recs = nat n"
  using assms by (simp add: generate_realistic_data_def Let_def length_data_run_loop)

lemma generate_overflow:
  "today - n < 1 \<Longrightarrow> generate_realistic_data rng today n = Inl OverflowError"
  by (simp add: generate_realistic_data_def)

section \<open>Rounding\<close>

lemma py_round_ge: "of_int a \<le> x \<Longrightarrow> a \<le> py_round x"
proof -
  assume "of_int a \<le> x"
  then have "a \<le> \<lfloor>x\<rfloor>" by (simp add: le_floor_iff)
  then show ?thesis by (simp add: py_round_def Let_def)
qed

lemma py_round_le: "x \<le> of_int b \<Longrightarrow> py_round x \<le> b"
proof -
  assume h: "x \<le> of_int b"
  then have f: "\<lfloor>x\<rfloor> \<le> b" by (simp add: floor_le_iff)
  show ?thesis
  proof (cases "x - of_int \<lfloor>x\<rfloor> < 1 / 2")
    case True
    then show ?thesis using f by (simp add: py_round_def Let_def)
  next
    case False
    then have "of_int \<lfloor>x\<rfloor> < x" by linarith
    with h have "of_int \<lfloor>x\<rfloor> < (of_int b :: real)" by linarith
    then have "\<lfloor>x\<rfloor> < b" by simp
    then have "\<lfloor>x\<rfloor> + 1 \<le> b" by simp
    then show ?thesis using f by (simp add: py_round_def Let_def)
  qed
qed

lemma py_round1_ge: "of_int a / 10 \<le> x \<Longrightarrow> of_int a / 10 \<le> py_round1 x"
proof -
  assume "of_int a / 10 \<le> x"
  then have "of_int a \<le> x * 10" by simp
  then have "a \<le> py_round (x * 10)" by (rule py_round_ge)
  then have "(of_int a :: real) \<le> of_int (py_round (x * 10))" by simp
  then show ?thesis by (simp add: py_round1_def divide_right_mono)
qed

lemma py_round1_le: "x \<le> of_int b / 10 \<Longrightarrow> py_round1 x \<le> of_int b / 10"
proof -
  assume "x \<le> of_int b / 10"
  then have "x * 10 \<le> of_int b" by simp
  then have "py_round (x * 10) \<le> b" by (rule py_round_le)
  then have "(of_int (py_round (x * 10)) :: real) \<le> of_int b" by simp
  then show ?thesis by (simp add: py_round1_def divide_right_mono)
qed

lemma py_round1_0: "py_round1 0 = 0"
  by (simp add: py_round1_def py_round_def)


section \<open>Medication before the start day\<close>

text \<open>
  Claim C8. In every record whose day index is below \<open>medication_start_day\<close> the field
  \<open>medicationTaken\<close> is 0, whatever the stream of draws, the date of the run and the
  number of days.
\<close>

theorem medication_not_taken_before_start:
  assumes "generate_realistic_data rng today n = Inr recs"
    and "i < length recs" and "int i < medication_start_day"
  shows "medicationTaken (recs ! i) = 0"
  using assms(3)
  by (simp add: generate_nth [OF assms(1,2)] make_row_def medication_taken_def on_medication_def)

theorem medication_not_taken_before_start_witness:
  "generate_realistic_data rng_a 738888 61 = Inr (data (run_loop rng_a 738827 61))
   \<and> 59 < length (data (run_loop rng_a 738827 61))
   \<and> int 59 < medication_start_day
   \<and> medicationTaken (data (run_loop rng_a 738827 61) ! 59) = 0"
proof -
  have g: "generate_realistic_data rng_a 738888 61 = Inr (data (run_loop rng_a 738827 61))"
    by (simp add: generate_realistic_data_def MAXORDINAL_def)
  have l: "59 < length (data (run_loop rng_a 738827 61))"
    by (simp add: length_data_run_loop)
  have d: "int 59 < medication_start_day"
    by (simp add: medication_start_day_def)
  show ?thesis
    by (rule conjI [OF g conjI [OF l conjI [OF d medication_not_taken_before_start [OF g l d]]]])
qed

section \<open>The previous-day fields\<close>

lemma previous_day_fields_first:
  assumes "generate_realistic_data rng today n = Inr recs" and "0 < length recs"
  shows "previousDaySleep (recs ! 0) = 0 \<and> previousDayMood (recs ! 0) = 0"
  by (simp add: generate_nth [OF assms(1,2)] make_row_def)

lemma previous_day_fields_later:
  assumes "generate_realistic_data rng today n = Inr recs" and "i < length recs" and "0 < i"
  shows "previousDaySleep (recs ! i) = sleepHours (recs ! i)
       \<and> previousDayMood (recs ! i) = moodLevel (recs ! i)"
  using assms(3) by (simp add: generate_nth [OF assms(1,2)] make_row_def)

text \<open>
  Claim C1 (previousDaySleep and previousDayMood of record i > 0 are sleepHours and
  moodLevel of record i - 1; both are 0 in record 0). The loop overwrites
  \<^verbatim>\<open>previous_sleep\<close> and \<^verbatim>\<open>previous_mood\<close> before it builds the dictionary, so
  the two fields of a later record repeat that record's own sleepHours and moodLevel. The
  run of three days below, started on 2024-01-03 with the stream \<open>rng_b\<close>, shows it: the
  third record has previousDaySleep 28/5 and previousDayMood 3, its own values, while the
  second record has sleepHours 41/5 and moodLevel 2.
\<close>

theorem previous_day_fields_hold_current_day:
  "generate_realistic_data rng_b 738888 3 =
     Inr [\<lparr>moodLevel = 2, anxietyLevel = 3, anhedoniaLevel = 2,
            sleepHours = 71 / 10, sleepQuality = 4, daylightMinutes = 90,
            exerciseMinutes = 0, medicationTaken = 0, substanceAmount = 0,
            dayOfWeek = 7, previousDaySleep = 0, previousDayMood = 0\<rparr>,
          \<lparr>moodLevel = 2, anxietyLevel = 3, anhedoniaLevel = 2,
            sleepHours = 41 / 5, sleepQuality = 5, daylightMinutes = 42,
            exerciseMinutes = 0, medicationTaken = 0, substanceAmount = 1857 / 10,
            dayOfWeek = 1, previousDaySleep = 41 / 5, previousDayMood = 2\<rparr>,
          \<lparr>moodLevel = 3, anxietyLevel = 3, anhedoniaLevel = 3,
            sleepHours = 28 / 5, sleepQuality = 3, daylightMinutes = 54,
            exerciseMinutes = 0, medicationTaken = 0, substanceAmount = 0,
            dayOfWeek = 2, previousDaySleep = 28 / 5, previousDayMood = 3\<rparr>]"
  by code_simp

section \<open>The numbering of the days of the week\<close>

lemma day_of_week_numbering:
  "day_of_week start_date day = (start_date + int day + 6) mod 7 + 1"
  by (simp add: day_of_week_def weekday_def current_date_def)

lemma saturday_not_weekend:
  "weekday (current_date 738884 0) = 5 \<and> day_of_week 738884 0 = 6 \<and> \<not> is_weekend 738884 0"
  by code_simp

lemma tuesday_numbered_two:
  "weekday (current_date 738887 0) = 1 \<and> day_of_week 738887 0 = 2"
  by code_simp

text \<open>
  Claim C2 (dayOfWeek is Sunday = 1, Monday = 2, ..., Saturday = 7, so that the penalty of
  \<open>dayOfWeek = 2\<close> falls on Monday and the weekend branch on Saturday and Sunday).
  \<^verbatim>\<open>weekday()\<close> counts from Monday = 0, so the loop numbers Monday 1 and Sunday 7.
  The run of one day started on Tuesday 2024-01-02 generates Monday 2024-01-01
  (ordinal 738886): its weekday is 0, the loop numbers it 1, takes it for a weekend day and
  emits \<open>dayOfWeek = 1\<close>.
\<close>

theorem monday_numbered_one_and_weekend:
  "weekday (current_date 738886 0) = 0
   \<and> day_of_week 738886 0 = 1
   \<and> is_weekend 738886 0
   \<and> generate_realistic_data rng_a 738887 1 =
       Inr [\<lparr>moodLevel = 2, anxietyLevel = 3, anhedoniaLevel = 2,
              sleepHours = 81 / 10, sleepQuality = 4, daylightMinutes = 63,
              exerciseMinutes = 0, medicationTaken = 0, substanceAmount = 500,
              dayOfWeek = 1, previousDaySleep = 0, previousDayMood = 0\<rparr>]"
  by code_simp

section \<open>Ranges of the bounded fields\<close>

lemma mood_level_range: "1 \<le> mood_level rng sd s day \<and> mood_level rng sd s day \<le> 5"
  by (simp add: mood_level_def)

lemma anxiety_level_range: "0 \<le> anxiety_level rng sd s day \<and> anxiety_level rng sd s day \<le> 4"
  by (simp add: anxiety_level_def)

lemma anhedonia_level_range:
  "0 \<le> anhedonia_level rng sd s day \<and> anhedonia_level rng sd s day \<le> 4"
  by (simp add: anhedonia_level_def)

lemma sleep_hours_range: "4 \<le> sleep_hours rng sd s day \<and> sleep_hours rng sd s day \<le> 10"
  by (simp add: sleep_hours_def)

lemma sleep_hours_rounded_range:
  "4 \<le> py_round1 (sleep_hours rng sd s day) \<and> py_round1 (sleep_hours rng sd s day) \<le> 10"
  using py_round1_ge [of 40 "sleep_hours rng sd s day"]
    py_round1_le [of "sleep_hours rng sd s day" 100] sleep_hours_range [of rng sd s day]
  by simp

lemma sleep_quality_range:
  "1 \<le> sleep_quality rng sd s day \<and> sleep_quality rng sd s day \<le> 5"
proof -
  define y where "y = min 5 (max 1 (sleep_hours rng sd s day / 8.0 * 5 + quality_noise rng s day))"
  have "1 \<le> y" and "y \<le> 5" by (simp_all add: y_def)
  then have "1 \<le> \<lfloor>y\<rfloor>" and "\<lfloor>y\<rfloor> \<le> 5" by (simp_all add: le_floor_iff floor_le_iff)
  moreover have "sleep_quality rng sd s day = \<lfloor>y\<rfloor>"
    using \<open>1 \<le> y\<close> by (simp add: sleep_quality_def py_int_def y_def)
  ultimately show ?thesis by simp
qed

lemma daylight_minutes_range:
  "15 \<le> daylight_minutes rng sd s day \<and> daylight_minutes rng sd s day \<le> 300"
  by (simp add: daylight_minutes_def)

lemma daylight_minutes_rounded_range:
  "15 \<le> py_round1 (daylight_minutes rng sd s day)
   \<and> py_round1 (daylight_minutes rng sd s day) \<le> 300"
  using py_round1_ge [of 150 "daylight_minutes rng sd s day"]
    py_round1_le [of "daylight_minutes rng sd s day" 3000]
    daylight_minutes_range [of rng sd s day]
  by simp

lemma random_uniform_range:
  "a \<le> b \<Longrightarrow> 0 \<le> u \<Longrightarrow> u \<le> 1 \<Longrightarrow> a \<le> random_uniform a b u \<and> random_uniform a b u \<le> b"
proof -
  assume h: "a \<le> b" "0 \<le> u" "u \<le> 1"
  then have "0 \<le> (b - a) * u" by simp
  moreover have "(b - a) * u \<le> (b - a) * 1"
    using h by (intro mult_left_mono) simp_all
  ultimately show ?thesis by (simp add: random_uniform_def)
qed

lemma exercise_minutes_range:
  assumes "\<forall>k. 0 \<le> rng k \<and> rng k < 1"
  shows "exercise_minutes rng sd s day = 0
       \<or> 20 \<le> exercise_minutes rng sd s day \<and> exercise_minutes rng sd s day \<le> 60"
proof (cases "exercises rng sd s day")
  case True
  have "0 \<le> rng (pos_sleep s day + 4)" and "rng (pos_sleep s day + 4) \<le> 1"
    using assms by (simp_all add: less_imp_le)
  then show ?thesis
    using True random_uniform_range [of 20 60 "rng (pos_sleep s day + 4)"]
    by (simp add: exercise_minutes_def)
next
  case False
  then show ?thesis by (simp add: exercise_minutes_def)
qed

lemma exercise_minutes_rounded_range:
  assumes "\<forall>k. 0 \<le> rng k \<and> rng k < 1"
  shows "py_round1 (exercise_minutes rng sd s day) = 0
       \<or> 20 \<le> py_round1 (exercise_minutes rng sd s day)
          \<and> py_round1 (exercise_minutes rng sd s day) \<le> 60"
  using exercise_minutes_range [OF assms, of sd s day]
    py_round1_ge [of 200 "exercise_minutes rng sd s day"]
    py_round1_le [of "exercise_minutes rng sd s day" 600]
  by (auto simp add: py_round1_0)

lemma day_of_week_range: "1 \<le> day_of_week sd day \<and> day_of_week sd day \<le> 7"
  by (simp add: day_of_week_def weekday_def)

text \<open>
  Claim C4. Whatever the day index and the draws (each draw of \<^verbatim>\<open>random.random()\<close> lies in
  [0, 1)), every record has moodLevel in [1, 5], anxietyLevel and anhedoniaLevel in [0, 4],
  sleepHours in [4, 10], sleepQuality in [1, 5], daylightMinutes in [15, 300],
  exerciseMinutes equal to 0 or in [20, 60], and dayOfWeek in [1, 7].
\<close>

theorem bounded_fields_in_range:
  assumes "generate_realistic_data rng today n = Inr recs"
    and "i < length recs"
    and "\<forall>k. 0 \<le> rng k \<and> rng k < 1"
  shows "1 \<le> moodLevel (recs ! i) \<and> moodLevel (recs ! i) \<le> 5
       \<and> 0 \<le> anxietyLevel (recs ! i) \<and> anxietyLevel (recs ! i) \<le> 4
       \<and> 0 \<le> anhedoniaLevel (recs ! i) \<and> anhedoniaLevel (recs ! i) \<le> 4
       \<and> 4 \<le> sleepHours (recs ! i) \<and> sleepHours (recs ! i) \<le> 10
       \<and> 1 \<le> sleepQuality (recs ! i) \<and> sleepQuality (recs ! i) \<le> 5
       \<and> 15 \<le> daylightMinutes (recs ! i) \<and> daylightMinutes (recs ! i) \<le> 300
       \<and> (exerciseMinutes (recs ! i) = 0
           \<or> 20 \<le> exerciseMinutes (recs ! i) \<and> exerciseMinutes (recs ! i) \<le> 60)
       \<and> 1 \<le> dayOfWeek (recs ! i) \<and> dayOfWeek (recs ! i) \<le> 7"
  unfolding generate_nth [OF assms(1,2)] make_row_def
  using mood_level_range anxiety_level_range anhedonia_level_range sleep_hours_rounded_range
    sleep_quality_range daylight_minutes_rounded_range
    exercise_minutes_rounded_range [OF assms(3)] day_of_week_range
  by simp

theorem bounded_fields_in_range_witness:
  "generate_realistic_data rng_b 738888 3 = Inr (data (run_loop rng_b 738885 3))
   \<and> 2 < length (data (run_loop rng_b 738885 3))
   \<and> (\<forall>k. 0 \<le> rng_b k \<and> rng_b k < 1)
   \<and> sleepHours (data (run_loop rng_b 738885 3) ! 2) = 28 / 5
   \<and> 4 \<le> sleepHours (data (run_loop rng_b 738885 3) ! 2)
   \<and> sleepHours (data (run_loop rng_b 738885 3) ! 2) \<le> 10"
proof -
  have g: "generate_realistic_data rng_b 738888 3 = Inr (data (run_loop rng_b 738885 3))"
    by (simp add: generate_realistic_data_def MAXORDINAL_def)
  have l: "2 < length (data (run_loop rng_b 738885 3))"
    by (simp add: length_data_run_loop)
  have r: "\<forall>k. 0 \<le> rng_b k \<and> rng_b k < 1"
    by (simp add: rng_b_def)
  have v: "sleepHours (data (run_loop rng_b 738885 3) ! 2) = 28 / 5"
    by code_simp
  show ?thesis
    using g l r v bounded_fields_in_range [OF g l r] by blast
qed

section \<open>The medication effect\<close>

lemma carried_values_first:
  "previous_sleep (run_loop rng sd 0) = 6.5 \<and> previous_mood (run_loop rng sd 0) = 2"
  by (simp add: run_loop_0 initial_state_def)

lemma carried_values_later:
  "previous_sleep (run_loop rng sd (Suc i)) = sleep_hours rng sd (run_loop rng sd i) i
   \<and> previous_mood (run_loop rng sd (Suc i)) = mood_level rng sd (run_loop rng sd i) i"
  by (simp add: run_loop_Suc previous_sleep_loop_body previous_mood_loop_body)

text \<open>
  Claim C5. In every iteration, \<open>days_on_meds\<close> is max(0, day - medication_start_day) when
  the dose is taken and 0 otherwise; \<open>med_effect\<close> is min(1.5, days_on_meds / 30 * 1.5) from
  the start day on and 0 before, and on a day on medication without the dose that value is
  multiplied by 0.3. The flag is the record's own \<open>medicationTaken\<close>.
\<close>

theorem medication_effect_formula:
  assumes "generate_realistic_data rng today n = Inr recs" and "i < length recs"
  shows "days_on_meds rng (run_loop rng (today - n) i) i =
           spec_days_on_meds (int i) (medicationTaken (recs ! i) = 1)
       \<and> med_effect rng (run_loop rng (today - n) i) i =
           spec_med_effect (int i) (medicationTaken (recs ! i) = 1)"
  unfolding generate_nth [OF assms]
  by (simp add: make_row_def days_on_meds_def med_effect_def spec_days_on_meds_def
      spec_med_effect_def medication_taken_def on_medication_def Let_def)

lemma med_effect_values:
  "spec_med_effect 59 True = 0 \<and> spec_med_effect 75 True = 3 / 4
   \<and> spec_med_effect 120 True = 3 / 2 \<and> spec_med_effect 75 False = 0"
  by (simp add: spec_med_effect_def spec_days_on_meds_def medication_start_day_def)

theorem medication_effect_formula_witness:
  "generate_realistic_data rng_a 738888 76 = Inr (data (run_loop rng_a 738812 76))
   \<and> 75 < length (data (run_loop rng_a 738812 76))
   \<and> days_on_meds rng_a (run_loop rng_a 738812 75) 75 =
        spec_days_on_meds 75 (medicationTaken (data (run_loop rng_a 738812 76) ! 75) = 1)
   \<and> med_effect rng_a (run_loop rng_a 738812 75) 75 =
        spec_med_effect 75 (medicationTaken (data (run_loop rng_a 738812 76) ! 75) = 1)"
proof -
  have g: "generate_realistic_data rng_a 738888 76 = Inr (data (run_loop rng_a 738812 76))"
    by (simp add: generate_realistic_data_def MAXORDINAL_def)
  have l: "75 < length (data (run_loop rng_a 738812 76))"
    by (simp add: length_data_run_loop)
  show ?thesis
    using g l medication_effect_formula [OF g l] by simp
qed

section \<open>Mood level and sleep quality\<close>











lemma truncation_is_not_rounding:
  "spec_sleep_quality 6 0 = 3 \<and> py_round (clip_real 1 5 (6 / 8.0 * 5 + 0)) = 4
   \<and> truncate_toward_zero (- 3.75) = - 3 \<and> py_int (- 3.75) = - 3"
  by (simp add: spec_sleep_quality_def truncate_toward_zero_def clip_real_def py_round_def
      py_int_def)

section \<open>What the output depends on\<close>

text \<open>
  Claim C3 as stated (the output is fixed by the seed and the number of days alone) fails.
  The start date is \<^verbatim>\<open>datetime.now()\<close> minus the number of days, so the day of the week and
  the month of every record move with the date of the run. Two runs of one day with the same
  stream, one on 2024-01-02 and one on 2024-01-03, differ (in dayOfWeek, and in what the
  weekend branch draws): the seed and the number of days alone do not fix the output.
\<close>

theorem output_depends_on_run_date:
  "generate_realistic_data rng_a 738887 1 \<noteq> generate_realistic_data rng_a 738888 1"
  by code_simp

lemma pos_sleep_bound: "pos s \<le> pos_sleep s day \<and> pos_sleep s day \<le> pos s + 1"
  by (simp add: pos_sleep_def)

lemma pos_daylight_bound:
  "pos s \<le> pos_daylight rng sd s day \<and> pos_daylight rng sd s day \<le> pos s + 6"
  using pos_sleep_bound [of s day] by (simp add: pos_daylight_def)

lemma pos_alcohol_bound:
  "pos s \<le> pos_alcohol rng sd s day \<and> pos_alcohol rng sd s day \<le> pos s + 9"
  using pos_daylight_bound [of s rng sd day] by (simp add: pos_alcohol_def)

lemma pos_mood_bound:
  "pos s \<le> pos_mood rng sd s day \<and> pos_mood rng sd s day \<le> pos s + 11"
  using pos_alcohol_bound [of s rng sd day] by (simp add: pos_mood_def)

lemma pos_next_bound:
  "pos s \<le> pos_next rng sd s day \<and> pos_next rng sd s day \<le> pos s + 14"
  using pos_mood_bound [of s rng sd day] by (simp add: pos_next_def)

lemma medication_taken_cong:
  assumes a: "\<And>k. pos s \<le> k \<Longrightarrow> k < pos s + 14 \<Longrightarrow> rng k = rng' k"
  shows "medication_taken rng s day = medication_taken rng' s day"
proof -
  have d0: "rng (pos s) = rng' (pos s)"
    using pos_sleep_bound [of s day] by (intro a) simp_all
  show ?thesis
    using d0
    by (simp add: medication_taken_def)
qed

lemma days_on_meds_cong:
  assumes a: "\<And>k. pos s \<le> k \<Longrightarrow> k < pos s + 14 \<Longrightarrow> rng k = rng' k"
  shows "days_on_meds rng s day = days_on_meds rng' s day"
proof -
  show ?thesis
    by (simp add: days_on_meds_def medication_taken_cong [OF a])
qed

lemma med_effect_cong:
  assumes a: "\<And>k. pos s \<le> k \<Longrightarrow> k < pos s + 14 \<Longrightarrow> rng k = rng' k"
  shows "med_effect rng s day = med_effect rng' s day"
proof -
  show ?thesis
    by (simp add: med_effect_def medication_taken_cong [OF a] days_on_meds_cong [OF a])
qed

lemma base_sleep_cong:
  assumes a: "\<And>k. pos s \<le> k \<Longrightarrow> k < pos s + 14 \<Longrightarrow> rng k = rng' k"
  shows "base_sleep rng sd s day = base_sleep rng' sd s day"
proof -
  have d0: "rng (pos_sleep s day) = rng' (pos_sleep s day)"
    using pos_sleep_bound [of s day] by (intro a) simp_all
  show ?thesis
    using d0
    by (simp add: base_sleep_def)
qed

lemma sleep_hours_cong:
  assumes a: "\<And>k. pos s \<le> k \<Longrightarrow> k < pos s + 14 \<Longrightarrow> rng k = rng' k"
  shows "sleep_hours rng sd s day = sleep_hours rng' sd s day"
proof -
  have d0: "rng (pos_sleep s day + 1) = rng' (pos_sleep s day + 1)"
    using pos_sleep_bound [of s day] by (intro a) simp_all
  show ?thesis
    using d0
    by (simp add: sleep_hours_def base_sleep_cong [OF a] med_effect_cong [OF a])
qed

lemma quality_noise_cong:
  assumes a: "\<And>k. pos s \<le> k \<Longrightarrow> k < pos s + 14 \<Longrightarrow> rng k = rng' k"
  shows "quality_noise rng s day = quality_noise rng' s day"
proof -
  have d0: "rng (pos_sleep s day + 2) = rng' (pos_sleep s day + 2)"
    using pos_sleep_bound [of s day] by (intro a) simp_all
  show ?thesis
    using d0
    by (simp add: quality_noise_def)
qed

lemma sleep_quality_cong:
  assumes a: "\<And>k. pos s \<le> k \<Longrightarrow> k < pos s + 14 \<Longrightarrow> rng k = rng' k"
  shows "sleep_quality rng sd s day = sleep_quality rng' sd s day"
proof -
  show ?thesis
    by (simp add: sleep_quality_def sleep_hours_cong [OF a] quality_noise_cong [OF a])
qed

lemma exercises_cong:
  assumes a: "\<And>k. pos s \<le> k \<Longrightarrow> k < pos s + 14 \<Longrightarrow> rng k = rng' k"
  shows "exercises rng sd s day = exercises rng' sd s day"
proof -
  have d0: "rng (pos_sleep s day + 3) = rng' (pos_sleep s day + 3)"
    using pos_sleep_bound [of s day] by (intro a) simp_all
  show ?thesis
    using d0
    by (simp add: exercises_def)
qed

lemma exercise_minutes_cong:
  assumes a: "\<And>k. pos s \<le> k \<Longrightarrow> k < pos s + 14 \<Longrightarrow> rng k = rng' k"
  shows "exercise_minutes rng sd s day = exercise_minutes rng' sd s day"
proof -
  have d0: "rng (pos_sleep s day + 4) = rng' (pos_sleep s day + 4)"
    using pos_sleep_bound [of s day] by (intro a) simp_all
  show ?thesis
    using d0
    by (simp add: exercise_minutes_def exercises_cong [OF a])
qed

lemma pos_daylight_cong:
  assumes a: "\<And>k. pos s \<le> k \<Longrightarrow> k < pos s + 14 \<Longrightarrow> rng k = rng' k"
  shows "pos_daylight rng sd s day = pos_daylight rng' sd s day"
proof -
  show ?thesis
    by (simp add: pos_daylight_def exercises_cong [OF a])
qed

lemma base_daylight_cong:
  assumes a: "\<And>k. pos s \<le> k \<Longrightarrow> k < pos s + 14 \<Longrightarrow> rng k = rng' k"
  shows "base_daylight rng sd s day = base_daylight rng' sd s day"
proof -
  have d0: "rng (pos_daylight rng' sd s day) = rng' (pos_daylight rng' sd s day)"
    using pos_daylight_bound [of s rng' sd day] by (intro a) simp_all
  show ?thesis
    using d0
    by (simp add: base_daylight_def pos_daylight_cong [OF a])
qed

lemma daylight_minutes_cong:
  assumes a: "\<And>k. pos s \<le> k \<Longrightarrow> k < pos s + 14 \<Longrightarrow> rng k = rng' k"
  shows "daylight_minutes rng sd s day = daylight_minutes rng' sd s day"
proof -
  show ?thesis
    by (simp add: daylight_minutes_def base_daylight_cong [OF a])
qed

lemma caffeine_cong:
  assumes a: "\<And>k. pos s \<le> k \<Longrightarrow> k < pos s + 14 \<Longrightarrow> rng k = rng' k"
  shows "caffeine rng sd s day = caffeine rng' sd s day"
proof -
  have d0: "rng (pos_daylight rng' sd s day + 1) = rng' (pos_daylight rng' sd s day + 1)"
    using pos_daylight_bound [of s rng' sd day] by (intro a) simp_all
  show ?thesis
    using d0
    by (simp add: caffeine_def pos_daylight_cong [OF a])
qed

lemma pos_alcohol_cong:
  assumes a: "\<And>k. pos s \<le> k \<Longrightarrow> k < pos s + 14 \<Longrightarrow> rng k = rng' k"
  shows "pos_alcohol rng sd s day = pos_alcohol rng' sd s day"
proof -
  show ?thesis
    by (simp add: pos_alcohol_def pos_daylight_cong [OF a] caffeine_cong [OF a])
qed

lemma alcohol_cong:
  assumes a: "\<And>k. pos s \<le> k \<Longrightarrow> k < pos s + 14 \<Longrightarrow> rng k = rng' k"
  shows "alcohol rng sd s day = alcohol rng' sd s day"
proof -
  have d0: "rng (pos_alcohol rng' sd s day) = rng' (pos_alcohol rng' sd s day)"
    using pos_alcohol_bound [of s rng' sd day] by (intro a) simp_all
  show ?thesis
    using d0
    by (simp add: alcohol_def pos_alcohol_cong [OF a])
qed

lemma substance_amount_cong:
  assumes a: "\<And>k. pos s \<le> k \<Longrightarrow> k < pos s + 14 \<Longrightarrow> rng k = rng' k"
  shows "substance_amount rng sd s day = substance_amount rng' sd s day"
proof -
  have d0: "rng (pos_daylight rng' sd s day + 2) = rng' (pos_daylight rng' sd s day + 2)"
    using pos_daylight_bound [of s rng' sd day] pos_alcohol_bound [of s rng' sd day] by (intro a) simp_all
  have d1: "rng (pos_alcohol rng' sd s day + 1) = rng' (pos_alcohol rng' sd s day + 1)"
    using pos_daylight_bound [of s rng' sd day] pos_alcohol_bound [of s rng' sd day] by (intro a) simp_all
  show ?thesis
    using d0 d1
    by (simp add: substance_amount_def pos_daylight_cong [OF a] pos_alcohol_cong [OF a] caffeine_cong [OF a] alcohol_cong [OF a])
qed

lemma pos_mood_cong:
  assumes a: "\<And>k. pos s \<le> k \<Longrightarrow> k < pos s + 14 \<Longrightarrow> rng k = rng' k"
  shows "pos_mood rng sd s day = pos_mood rng' sd s day"
proof -
  show ?thesis
    by (simp add: pos_mood_def pos_alcohol_cong [OF a] alcohol_cong [OF a])
qed

lemma mood_noise_cong:
  assumes a: "\<And>k. pos s \<le> k \<Longrightarrow> k < pos s + 14 \<Longrightarrow> rng k = rng' k"
  shows "mood_noise rng sd s day = mood_noise rng' sd s day"
proof -
  have d0: "rng (pos_mood rng' sd s day) = rng' (pos_mood rng' sd s day)"
    using pos_mood_bound [of s rng' sd day] by (intro a) simp_all
  show ?thesis
    using d0
    by (simp add: mood_noise_def pos_mood_cong [OF a])
qed

lemma mood_cong:
  assumes a: "\<And>k. pos s \<le> k \<Longrightarrow> k < pos s + 14 \<Longrightarrow> rng k = rng' k"
  shows "mood rng sd s day = mood rng' sd s day"
proof -
  show ?thesis
    by (simp add: mood_def med_effect_cong [OF a] exercise_minutes_cong [OF a] daylight_minutes_cong [OF a] substance_amount_cong [OF a] mood_noise_cong [OF a])
qed

lemma mood_level_cong:
  assumes a: "\<And>k. pos s \<le> k \<Longrightarrow> k < pos s + 14 \<Longrightarrow> rng k = rng' k"
  shows "mood_level rng sd s day = mood_level rng' sd s day"
proof -
  show ?thesis
    by (simp add: mood_level_def mood_cong [OF a])
qed

lemma anxiety_cong:
  assumes a: "\<And>k. pos s \<le> k \<Longrightarrow> k < pos s + 14 \<Longrightarrow> rng k = rng' k"
  shows "anxiety rng sd s day = anxiety rng' sd s day"
proof -
  have d0: "rng (pos_mood rng' sd s day + 1) = rng' (pos_mood rng' sd s day + 1)"
    using pos_mood_bound [of s rng' sd day] by (intro a) simp_all
  show ?thesis
    using d0
    by (simp add: anxiety_def med_effect_cong [OF a] sleep_hours_cong [OF a] exercise_minutes_cong [OF a] substance_amount_cong [OF a] pos_mood_cong [OF a])
qed

lemma anxiety_level_cong:
  assumes a: "\<And>k. pos s \<le> k \<Longrightarrow> k < pos s + 14 \<Longrightarrow> rng k = rng' k"
  shows "anxiety_level rng sd s day = anxiety_level rng' sd s day"
proof -
  show ?thesis
    by (simp add: anxiety_level_def anxiety_cong [OF a])
qed

lemma anhedonia_cong:
  assumes a: "\<And>k. pos s \<le> k \<Longrightarrow> k < pos s + 14 \<Longrightarrow> rng k = rng' k"
  shows "anhedonia rng sd s day = anhedonia rng' sd s day"
proof -
  have d0: "rng (pos_mood rng' sd s day + 2) = rng' (pos_mood rng' sd s day + 2)"
    using pos_mood_bound [of s rng' sd day] by (intro a) simp_all
  show ?thesis
    using d0
    by (simp add: anhedonia_def med_effect_cong [OF a] sleep_hours_cong [OF a] exercise_minutes_cong [OF a] pos_mood_cong [OF a])
qed

lemma anhedonia_level_cong:
  assumes a: "\<And>k. pos s \<le> k \<Longrightarrow> k < pos s + 14 \<Longrightarrow> rng k = rng' k"
  shows "anhedonia_level rng sd s day = anhedonia_level rng' sd s day"
proof -
  show ?thesis
    by (simp add: anhedonia_level_def anhedonia_cong [OF a])
qed

lemma pos_next_cong:
  assumes a: "\<And>k. pos s \<le> k \<Longrightarrow> k < pos s + 14 \<Longrightarrow> rng k = rng' k"
  shows "pos_next rng sd s day = pos_next rng' sd s day"
proof -
  show ?thesis
    by (simp add: pos_next_def pos_mood_cong [OF a])
qed

lemma make_row_cong:
  assumes a: "\<And>k. pos s \<le> k \<Longrightarrow> k < pos s + 14 \<Longrightarrow> rng k = rng' k"
  shows "make_row rng sd s day x y = make_row rng' sd s day x y"
  by (simp add: make_row_def mood_level_cong [OF a] anxiety_level_cong [OF a]
      anhedonia_level_cong [OF a] sleep_hours_cong [OF a] sleep_quality_cong [OF a]
      daylight_minutes_cong [OF a] exercise_minutes_cong [OF a] medication_taken_cong [OF a]
      substance_amount_cong [OF a])

lemma loop_body_cong:
  assumes a: "\<And>k. pos s \<le> k \<Longrightarrow> k < pos s + 14 \<Longrightarrow> rng k = rng' k"
  shows "loop_body rng sd s day = loop_body rng' sd s day"
  by (simp add: loop_body_def Let_def make_row_cong [OF a] pos_next_cong [OF a]
      sleep_hours_cong [OF a] mood_level_cong [OF a])

lemma pos_run_loop: "pos (run_loop rng sd n) \<le> 14 * n"
proof (induction n)
  case 0
  then show ?case by (simp add: run_loop_0 initial_state_def)
next
  case (Suc n)
  then show ?case
    using pos_next_bound [of "run_loop rng sd n" rng sd n]
    by (simp add: run_loop_Suc pos_loop_body)
qed

lemma run_loop_cong:
  assumes "\<And>k. k < 14 * n \<Longrightarrow> rng k = rng' k"
  shows "run_loop rng sd n = run_loop rng' sd n"
  using assms
proof (induction n)
  case 0
  then show ?case by (simp add: run_loop_0)
next
  case (Suc n)
  have ih: "run_loop rng sd n = run_loop rng' sd n"
    using Suc.prems by (intro Suc.IH) simp
  have "loop_body rng sd (run_loop rng' sd n) n = loop_body rng' sd (run_loop rng' sd n) n"
  proof (rule loop_body_cong)
    fix k
    assume "k < pos (run_loop rng' sd n) + 14"
    then have "k < 14 * Suc n"
      using pos_run_loop [of rng' sd n] by simp
    then show "rng k = rng' k" by (rule Suc.prems)
  qed
  then show ?case by (simp add: run_loop_Suc ih)
qed

text \<open>
  Claim C3, amended. Two runs on the same calendar date and with the same number of days,
  whose streams agree on the first 14 draws per day, return the same result: the record
  sequence is a function of the seed's stream, the number of days and the date of the run.
\<close>

theorem output_determined_by_draws_and_date:
  assumes "\<forall>k. k < 14 * nat n \<longrightarrow> rng k = rng' k"
  shows "generate_realistic_data rng today n = generate_realistic_data rng' today n"
proof -
  have "run_loop rng (today - n) (nat n) = run_loop rng' (today - n) (nat n)"
    using assms by (intro run_loop_cong) simp
  then show ?thesis by (simp add: generate_realistic_data_def Let_def)
qed

theorem output_determined_by_draws_and_date_witness:
  "generate_realistic_data rng_a 738888 2 =
     generate_realistic_data (\<lambda>k. if k < 28 then rng_a k else 0) 738888 2"
proof -
  have h: "\<forall>k. k < 14 * nat 2 \<longrightarrow> rng_a k = (\<lambda>k. if k < 28 then rng_a k else 0) k"
    by simp
  show ?thesis
    by (rule output_determined_by_draws_and_date [OF h])
qed

section \<open>The writer\<close>

lemma write_file_failed:
  "write_file d ls = (content, False) \<Longrightarrow> d \<noteq> Healthy \<and> content \<noteq> Some ls"
  by (auto simp add: write_file_def split: disk.splits if_splits)

lemma write_file_succeeded:
  "write_file d ls = (content, True) \<Longrightarrow> content = Some ls"
  by (auto simp add: write_file_def split: disk.splits if_splits)

lemma save_to_csv_write_failed:
  assumes "snd (write_file d (csv_lines rows)) = False"
  shows "console (save_to_csv d rows filename) = []
       \<and> raised (save_to_csv d rows filename) = Some OSError"
proof -
  obtain content where "write_file d (csv_lines rows) = (content, False)"
    using assms by (cases "write_file d (csv_lines rows)") simp
  then show ?thesis by (simp add: save_to_csv_def)
qed

lemma save_to_csv_printed:
  assumes "console (save_to_csv d rows filename) \<noteq> []"
  shows "written (save_to_csv d rows filename) = Some (csv_lines rows)
       \<and> snd (write_file d (csv_lines rows)) = True"
proof -
  obtain content ok where w: "write_file d (csv_lines rows) = (content, ok)"
    by (cases "write_file d (csv_lines rows)")
  have ok: "ok"
    using assms w by (cases ok) (simp_all add: save_to_csv_def)
  then have "content = Some (csv_lines rows)"
    using w write_file_succeeded by simp
  then show ?thesis
    using w ok by (simp add: save_to_csv_def Let_def split: sum.splits)
qed

text \<open>
  Claim C9. When the \<^verbatim>\<open>with open(...)\<close> block raises, \<^verbatim>\<open>save_to_csv\<close> prints nothing and ends
  with OSError; whenever it has printed a line, the file holds the header and every row and
  the block ended without an exception.
\<close>

theorem summary_only_after_successful_write:
  "(snd (write_file d (csv_lines rows)) = False \<longrightarrow>
      console (save_to_csv d rows filename) = []
      \<and> raised (save_to_csv d rows filename) = Some OSError)
   \<and> (console (save_to_csv d rows filename) \<noteq> [] \<longrightarrow>
      written (save_to_csv d rows filename) = Some (csv_lines rows)
      \<and> snd (write_file d (csv_lines rows)) = True)"
  using save_to_csv_write_failed [of d rows filename] save_to_csv_printed [of d rows filename]
  by blast

theorem summary_only_after_successful_write_witness:
  "snd (write_file (Fails_after 1) (csv_lines [sample_row])) = False
   \<and> written (save_to_csv (Fails_after 1) [sample_row] ''out.csv'') = Some [Header fieldnames]
   \<and> console (save_to_csv (Fails_after 1) [sample_row] ''out.csv'') = []
   \<and> raised (save_to_csv (Fails_after 1) [sample_row] ''out.csv'') = Some OSError
   \<and> console (save_to_csv Healthy [sample_row] ''out.csv'') \<noteq> []
   \<and> written (save_to_csv Healthy [sample_row] ''out.csv'') = Some (csv_lines [sample_row])"
proof -
  have f: "snd (write_file (Fails_after 1) (csv_lines [sample_row])) = False"
    by (simp add: write_file_def csv_lines_def)
  have w: "written (save_to_csv (Fails_after 1) [sample_row] ''out.csv'') = Some [Header fieldnames]"
    by (simp add: save_to_csv_def write_file_def csv_lines_def)
  have p: "console (save_to_csv Healthy [sample_row] ''out.csv'') \<noteq> []"
    by (simp add: save_to_csv_def write_file_def avg_mood_after_of_def Let_def)
  show ?thesis
    using f w p summary_only_after_successful_write [of "Fails_after 1" "[sample_row]" "''out.csv''"]
      summary_only_after_successful_write [of Healthy "[sample_row]" "''out.csv''"]
    by blast
qed

lemma main_write_failed:
  assumes "generate_realistic_data rng today 180 = Inr rows"
    and "snd (write_file d (csv_lines rows)) = False"
  shows "console (main rng today d) = [Banner, Separator]
       \<and> raised (main rng today d) = Some OSError
       \<and> filter is_summary (console (main rng today d)) = []"
  using assms(1) save_to_csv_write_failed [OF assms(2), of "''neuralpath_ml_training.csv''"]
  by (simp add: main_def Let_def is_summary_def)

lemma sum_mood_ge_length:
  "(\<And>r. r \<in> set rows \<Longrightarrow> 1 \<le> moodLevel r) \<Longrightarrow> int (length rows) \<le> sum_list (map moodLevel rows)"
proof (induction rows)
  case Nil
  then show ?case by simp
next
  case (Cons r rows)
  have "1 \<le> moodLevel r" using Cons.prems by simp
  moreover have "int (length rows) \<le> sum_list (map moodLevel rows)"
    using Cons.prems by (intro Cons.IH) simp
  ultimately show ?case by simp
qed

lemma avg_mood_before_short:
  "length rows < 60 \<Longrightarrow> avg_mood_before_of rows = of_int (sum_list (map moodLevel rows)) / 60"
  by (simp add: avg_mood_before_of_def)

lemma avg_mood_before_not_mean:
  assumes "0 < length rows" and "length rows < 60" and "\<forall>r\<in>set rows. 1 \<le> moodLevel r"
  shows "avg_mood_before_of rows \<noteq> of_int (sum_list (map moodLevel rows)) / of_nat (length rows)"
proof
  assume e: "avg_mood_before_of rows = of_int (sum_list (map moodLevel rows)) / of_nat (length rows)"
  have "int (length rows) \<le> sum_list (map moodLevel rows)"
    using assms(3) by (intro sum_mood_ge_length) simp
  then have pos: "0 < sum_list (map moodLevel rows)" using assms(1) by linarith
  have "(of_int (sum_list (map moodLevel rows)) :: real) / 60
        = of_int (sum_list (map moodLevel rows)) / of_nat (length rows)"
    using e assms(2) by (simp add: avg_mood_before_short)
  then have "(of_nat (length rows) :: real) = 60"
    using pos assms(1) by (simp add: field_simps)
  then have "length rows = 60" by (metis of_nat_eq_iff of_nat_numeral)
  then show False using assms(2) by simp
qed

lemma save_to_csv_90:
  "length rows = 90 \<Longrightarrow>
   raised (save_to_csv Healthy rows filename) = Some ZeroDivisionError
   \<and> console (save_to_csv Healthy rows filename) = [Generated 90, Saved_to filename]"
  by (simp add: save_to_csv_def write_file_def avg_mood_after_of_def Let_def)

lemma save_to_csv_more_than_90:
  "90 < length rows \<Longrightarrow>
   raised (save_to_csv Healthy rows filename) = None
   \<and> avg_mood_after_of rows =
       Inr (of_int (sum_list (map moodLevel (drop 90 rows))) / of_int (int (length rows) - 90))
   \<and> int (length rows) - 90 \<noteq> 0"
  by (simp add: save_to_csv_def write_file_def avg_mood_after_of_def Let_def)

text \<open>
  Claim C10. After a successful write, \<^verbatim>\<open>save_to_csv\<close> on exactly 90 records raises
  ZeroDivisionError (the divisor \<^verbatim>\<open>len(data) - 90\<close> is 0). On fewer than 60 records the
  printed average before medication is the sum of all mood levels divided by the constant
  60, which is not their mean when there is at least one record and the mood levels are at
  least 1 (as the generator's are). On more than 90 records both divisors are nonzero and
  the statistics are computed without an exception.
\<close>

theorem summary_statistics_need_more_than_90_records:
  "(length rows = 90 \<longrightarrow>
      raised (save_to_csv Healthy rows filename) = Some ZeroDivisionError)
   \<and> (length rows < 60 \<longrightarrow>
      avg_mood_before_of rows = of_int (sum_list (map moodLevel rows)) / 60)
   \<and> (0 < length rows \<and> length rows < 60 \<and> (\<forall>r\<in>set rows. 1 \<le> moodLevel r) \<longrightarrow>
      avg_mood_before_of rows \<noteq> of_int (sum_list (map moodLevel rows)) / of_nat (length rows))
   \<and> (90 < length rows \<longrightarrow>
      raised (save_to_csv Healthy rows filename) = None
      \<and> avg_mood_after_of rows =
          Inr (of_int (sum_list (map moodLevel (drop 90 rows))) / of_int (int (length rows) - 90))
      \<and> int (length rows) - 90 \<noteq> 0)"
  using save_to_csv_90 [of rows filename] avg_mood_before_short [of rows]
    avg_mood_before_not_mean [of rows] save_to_csv_more_than_90 [of rows filename]
  by blast

theorem summary_statistics_need_more_than_90_records_witness:
  "length (replicate 90 sample_row) = 90
   \<and> raised (save_to_csv Healthy (replicate 90 sample_row) ''out.csv'') = Some ZeroDivisionError
   \<and> 0 < length [sample_row] \<and> length [sample_row] < 60
   \<and> 1 \<le> moodLevel sample_row
   \<and> avg_mood_before_of [sample_row] = 1 / 30
   \<and> avg_mood_before_of [sample_row]
        \<noteq> of_int (sum_list (map moodLevel [sample_row])) / of_nat (length [sample_row])
   \<and> 90 < length (replicate 91 sample_row)
   \<and> raised (save_to_csv Healthy (replicate 91 sample_row) ''out.csv'') = None"
proof -
  have a: "length (replicate 90 sample_row) = 90" by simp
  have b: "0 < length [sample_row] \<and> length [sample_row] < 60
           \<and> (\<forall>r\<in>set [sample_row]. 1 \<le> moodLevel r)"
    by (simp add: sample_row_def)
  have c: "90 < length (replicate 91 sample_row)" by simp
  have d: "avg_mood_before_of [sample_row] = 1 / 30"
    by (simp add: avg_mood_before_of_def sample_row_def)
  have e: "1 \<le> moodLevel sample_row"
    by (simp add: sample_row_def)
  show ?thesis
    using a b c d e
      summary_statistics_need_more_than_90_records [of "replicate 90 sample_row" "''out.csv''"]
      summary_statistics_need_more_than_90_records [of "[sample_row]" "''out.csv''"]
      summary_statistics_need_more_than_90_records [of "replicate 91 sample_row" "''out.csv''"]
    by blast
qed

end
